theory Spec2Isabelle
  imports Complex_Main "HOL-Library.Word" "HOL-Library.Code_Target_Numeral"
begin

section \<open>The Produto API: schemas, session and routes\<close>

text \<open>
  The program is a FastAPI application (main.py) with five routes over one table of
  products, validated by the pydantic schemas of schemas.py and stored in a SQLite file
  through a SQLAlchemy session made by \<open>SessionLocal\<close> (database.py: autocommit and
  autoflush are both off).

  Conventions of the embedding:
  \<^item> Python's \<open>int\<close> is \<open>int\<close>; an integer column of the store is a 64-bit word, read
    as signed.
  \<^item> Python's \<open>str\<close> is the list of its code points (\<open>str\<close>); a lone surrogate, which
    a JSON body can hold, is one of them.
  \<^item> Python's \<open>float\<close> is \<open>pyfloat\<close>: a finite number, one of the two infinities, or
    NaN. The finite ones are taken as \<open>real\<close>: the program does no arithmetic on a
    price, and the rounding of a decimal to a double happens when the body is parsed,
    before any code of the program runs.
  \<^item> an exception is a value of the type \<open>erro\<close>; an operation that can raise returns
    \<open>erro + 'a\<close>, and a handler is a function from the session to its outcome and
    the session afterwards.
  \<^item> a Python object that is mutated while several names refer to it (an ORM instance,
    held by the handler's variable and by the session) is a reference into a heap that
    the session record carries.
  \<^item> the store fails only where a value cannot be written (see \<open>vincular\<close>) or no key
    is left; there is no I/O error and no lost connection, and there is one request at
    a time.
\<close>

subsection \<open>Python values\<close>

type_synonym str = "nat list"

text \<open>A literal of the program, as a \<open>str\<close>.\<close>

definition str_of :: "string \<Rightarrow> str" where
  "str_of cs = map of_char cs"

datatype pyfloat = Finito real | MaisInf | MenosInf | NaN

definition finito :: "pyfloat \<Rightarrow> bool" where
  "finito x = (case x of Finito _ \<Rightarrow> True | _ \<Rightarrow> False)"

text \<open>
  A code point that UTF-8 can encode (a Unicode scalar value): not a surrogate, and not
  beyond U+10FFFF. \<open>utf8\<close> is the number of bytes of its encoding.
\<close>

definition escalar :: "nat \<Rightarrow> bool" where
  "escalar c = (c < 0xD800 \<or> (0xDFFF < c \<and> c \<le> 0x10FFFF))"

definition utf8 :: "nat \<Rightarrow> nat" where
  "utf8 c = (if c < 0x80 then 1 else if c < 0x800 then 2 else if c < 0x10000 then 3 else 4)"

text \<open>The range of a signed 64-bit integer.\<close>

definition int64 :: "int \<Rightarrow> bool" where
  "int64 k = (- (2 ^ 63) \<le> k \<and> k < 2 ^ 63)"

subsection \<open>schemas.py\<close>

text \<open>\<open>ProdutoBase\<close>: nome, preco, estoque. \<open>ProdutoCreate\<close> adds nothing to it.\<close>

record ProdutoBase =
  nome :: str
  preco :: pyfloat
  estoque :: int

type_synonym ProdutoCreate = ProdutoBase

text \<open>
  \<open>Produto\<close> (the response schema) adds the field \<open>id\<close>, written \<open>id'\<close> here since
  \<open>id\<close> is the identity function of HOL.
\<close>

record Produto = ProdutoBase +
  id' :: int

text \<open>A Python value held by an attribute or by an entry of \<open>dados.dict()\<close>.\<close>

datatype valor = VStr str | VFloat pyfloat | VInt int

text \<open>\<open>produto.dict()\<close>: the fields of the schema, in their order of declaration.\<close>

definition dict :: "ProdutoCreate \<Rightarrow> (string \<times> valor) list" where
  "dict p = [(''nome'', VStr (nome p)), (''preco'', VFloat (preco p)),
              (''estoque'', VInt (estoque p))]"

subsection \<open>Exceptions\<close>

text \<open>
  \<open>HTTPException status detail\<close> is the one exception the handlers raise themselves.
  The others are raised by the libraries and reach the client as a 500:
  \<^item> \<open>ValidationError\<close>: pydantic, when a response does not fit its \<open>response_model\<close>;
  \<^item> \<open>ValueError\<close>: the JSON encoder, on a float that is not finite;
  \<^item> \<open>OverflowError\<close>, \<open>UnicodeEncodeError\<close>, \<open>DataError\<close>: the SQLite driver, on a
    parameter it cannot hand to the store;
  \<^item> \<open>InvalidRequestError\<close>, \<open>IntegrityError\<close>, \<open>OperationalError\<close>: SQLAlchemy and
    the store.
\<close>

datatype erro =
    HTTPException int string
  | ValidationError
  | ValueError
  | OverflowError
  | UnicodeEncodeError
  | DataError
  | InvalidRequestError
  | IntegrityError
  | OperationalError

text \<open>The detail of the 404: "Produto n\<open>a-tilde\<close>o encontrado".\<close>

definition nao_encontrado :: string where
  "nao_encontrado = ''Produto n'' @ [CHR 0xE3] @ ''o encontrado''"

subsection \<open>The table\<close>

text \<open>
  Modelled from the spec: the columns of the table, which models.py declares (it is not
  among the sources), are \<open>id\<close> (integer, the primary key), \<open>nome\<close> (text),
  \<open>preco\<close> (real number) and \<open>estoque\<close> (integer) (sections 3 and 6). The store is
  SQLite (database.py): an integer column holds 64 bits, and a real column holds a
  float that is not NaN, or NULL (\<open>None\<close>).
\<close>

record Linha =
  col_id :: "64 word"
  col_nome :: str
  col_preco :: "pyfloat option"
  col_estoque :: "64 word"

definition chave :: "Linha \<Rightarrow> int" where
  "chave row = sint (col_id row)"

text \<open>
  The engine: the committed rows of the table, in storage order, and the count of the
  sessions made on it and of those that are open.
\<close>

record Engine =
  tabela :: "Linha list"
  feitas :: nat
  abertas :: nat

text \<open>
  Modelled from the spec: the key of a new row. Section 3 says that the \<open>id\<close> is
  generated by the store and unique, section 8 that the first row of an empty store gets
  1; SQLite gives one more than the largest key of the table. When the largest key is
  the last of the 64 bits the insert is taken to fail (SQLite would try unused keys at
  random).
\<close>

definition next_id :: "Linha list \<Rightarrow> int" where
  "next_id rows = (if rows = [] then 1 else Max (set (map chave rows)) + 1)"

text \<open>
  The driver, handing a parameter of a statement to the store: an integer must fit 64
  bits, a text must be encodable in UTF-8 and at most 10^9 bytes long (SQLite's limit on
  a value); a float always goes through.
\<close>

fun vincular :: "valor \<Rightarrow> erro option" where
  "vincular (VInt k) = (if int64 k then None else Some OverflowError)"
| "vincular (VStr s) =
     (if list_all escalar s
      then (if sum_list (map utf8 s) \<le> 1000000000 then None else Some DataError)
      else Some UnicodeEncodeError)"
| "vincular (VFloat x) = None"

text \<open>The parameters are handed over in order; the first that fails raises.\<close>

fun vincular_todos :: "valor list \<Rightarrow> erro option" where
  "vincular_todos [] = None"
| "vincular_todos (v # vs) = (case vincular v of Some e \<Rightarrow> Some e | None \<Rightarrow> vincular_todos vs)"

text \<open>A float as the real column stores it: NaN becomes NULL.\<close>

definition guardar :: "pyfloat option \<Rightarrow> pyfloat option" where
  "guardar x = (if x = Some NaN then None else x)"

subsection \<open>The ORM instance and the session\<close>

text \<open>
  The session is SQLAlchemy's, a library and not code of the program: its operations
  are modelled as far as the handlers use them, after the library's unit of work
  (pending, dirty and deleted instances, written by the flush that \<open>commit\<close> runs).
  Two things are left out since no handler can see them: the expiry of the attributes
  at a commit (every handler refreshes the instance it returns), and the reuse of an
  instance already loaded (every handler runs one query, on a new session).

  An instance of \<open>models.Produto\<close> is its attribute dictionary; an attribute that was
  never set reads as Python's \<open>None\<close>. Instances live in a heap, addressed by
  references.
\<close>

type_synonym ref = nat
type_synonym atributos = "string \<rightharpoonup> valor"

text \<open>
  The session:
  \<^item> \<open>bind\<close>: the engine it is bound to;
  \<^item> \<open>transacao\<close>: the rows as this session's open transaction sees them;
  \<^item> \<open>objetos\<close>, \<open>topo\<close>: the heap of instances and its next free reference;
  \<^item> \<open>identity\<close>: the persistent instances, each with the primary key it is stored under;
  \<^item> \<open>new\<close>, \<open>dirty\<close>, \<open>deleted\<close>: the pending work of the unit of work;
  \<^item> \<open>closed\<close>: set by \<open>close\<close>.
\<close>

record Session =
  bind :: Engine
  transacao :: "Linha list"
  objetos :: "ref \<Rightarrow> atributos"
  topo :: ref
  identity :: "ref \<rightharpoonup> int"
  new :: "ref list"
  dirty :: "ref list"
  deleted :: "ref list"
  closed :: bool

type_synonym 'a acao = "Session \<Rightarrow> (erro + 'a) \<times> Session"

text \<open>Sequencing of statements: an exception ends the sequence.\<close>

definition ret :: "'a \<Rightarrow> 'a acao" where
  "ret x = (\<lambda>s. (Inr x, s))"

definition raise :: "erro \<Rightarrow> 'a acao" where
  "raise e = (\<lambda>s. (Inl e, s))"

definition seq :: "'a acao \<Rightarrow> ('a \<Rightarrow> 'b acao) \<Rightarrow> 'b acao" where
  "seq m f = (\<lambda>s. case m s of (Inl e, s') \<Rightarrow> (Inl e, s') | (Inr x, s') \<Rightarrow> f x s')"

text \<open>
  \<open>SessionLocal()\<close>: a new session on the engine, with nothing loaded. The engine
  counts one session more made, and one more open.
\<close>

definition SessionLocal :: "Engine \<Rightarrow> Session" where
  "SessionLocal engine =
     \<lparr>bind = engine\<lparr>feitas := Suc (feitas engine), abertas := Suc (abertas engine)\<rparr>,
      transacao = tabela engine, objetos = (\<lambda>_. Map.empty), topo = 0,
      identity = Map.empty, new = [], dirty = [], deleted = [], closed = False\<rparr>"

text \<open>
  \<open>db.close()\<close>: what was not committed is rolled back, every instance is expunged,
  and the engine counts one open session less.
\<close>

definition db_close :: "Session \<Rightarrow> Session" where
  "db_close s =
     (if closed s then s
      else s\<lparr>bind := (bind s)\<lparr>abertas := abertas (bind s) - 1\<rparr>,
             transacao := tabela (bind s), identity := Map.empty, new := [], dirty := [],
             deleted := [], closed := True\<rparr>)"

text \<open>
  \<open>models.Produto(**kwargs)\<close>: a new transient instance whose attributes are the
  keyword arguments. Its \<open>id\<close> is not set.
\<close>

definition models_Produto :: "(string \<times> valor) list \<Rightarrow> ref acao" where
  "models_Produto kwargs =
     (\<lambda>s. (Inr (topo s),
            s\<lparr>objetos := (objetos s)(topo s := map_of kwargs), topo := Suc (topo s)\<rparr>))"

text \<open>\<open>db.add(obj)\<close>: the instance becomes pending.\<close>

definition db_add :: "ref \<Rightarrow> unit acao" where
  "db_add r = (\<lambda>s. (Inr (), s\<lparr>new := new s @ [r]\<rparr>))"

text \<open>
  \<open>setattr(obj, campo, valor)\<close>: the attribute is set; a persistent instance is from
  then on dirty.
\<close>

definition setattr :: "ref \<Rightarrow> string \<Rightarrow> valor \<Rightarrow> Session \<Rightarrow> Session" where
  "setattr r campo v s =
     s\<lparr>objetos := (objetos s)(r := (objetos s r)(campo \<mapsto> v)),
       dirty := (if identity s r \<noteq> None \<and> r \<notin> set (dirty s) then dirty s @ [r]
                 else dirty s)\<rparr>"

text \<open>\<open>db.delete(obj)\<close>: a persistent instance is marked for deletion.\<close>

definition db_delete :: "ref \<Rightarrow> unit acao" where
  "db_delete r =
     (\<lambda>s. if identity s r = None then (Inl InvalidRequestError, s)
          else (Inr (), s\<lparr>deleted := deleted s @ [r]\<rparr>))"

text \<open>
  The data columns of an instance, as the statements of a flush write them: the name
  and the stock it holds (the handlers always set them, from a validated payload) and
  its price, \<open>None\<close> when it has none.
\<close>

definition colunas :: "atributos \<Rightarrow> (str \<times> pyfloat option \<times> int) option" where
  "colunas a =
     (case a ''nome'' of
        Some (VStr n) \<Rightarrow>
          (case a ''estoque'' of
             Some (VInt q) \<Rightarrow>
               (case a ''preco'' of
                  None \<Rightarrow> Some (n, None, q)
                | Some (VFloat x) \<Rightarrow> Some (n, Some x, q)
                | Some _ \<Rightarrow> None)
           | _ \<Rightarrow> None)
      | _ \<Rightarrow> None)"

text \<open>The parameters of the three data columns, in the order of the columns.\<close>

definition parametros :: "str \<times> pyfloat option \<times> int \<Rightarrow> valor list" where
  "parametros c =
     (case c of (n, x, q) \<Rightarrow>
        [VStr n] @ (case x of None \<Rightarrow> [] | Some y \<Rightarrow> [VFloat y]) @ [VInt q])"

text \<open>The row of a key and three data columns that were handed to the store.\<close>

definition linha :: "int \<Rightarrow> str \<times> pyfloat option \<times> int \<Rightarrow> Linha" where
  "linha k c =
     (case c of (n, x, q) \<Rightarrow>
        \<lparr>col_id = word_of_int k, col_nome = n, col_preco = guardar x,
         col_estoque = word_of_int q\<rparr>)"

text \<open>The attributes of an instance after a row was read into it.\<close>

definition carregar :: "Linha \<Rightarrow> atributos \<Rightarrow> atributos" where
  "carregar row a =
     (a(''id'' \<mapsto> VInt (chave row), ''nome'' \<mapsto> VStr (col_nome row),
        ''estoque'' \<mapsto> VInt (sint (col_estoque row))))
     (''preco'' := map_option VFloat (col_preco row))"

text \<open>
  The three statements of a flush. INSERT of a pending instance: the key is the
  instance's \<open>id\<close> when it has one (it must be unused), the store's next key otherwise;
  the instance gets the key and becomes persistent. UPDATE of a dirty instance and
  DELETE of a deleted one address the row by the key the instance is stored under.
\<close>

definition sql_INSERT :: "ref \<Rightarrow> Session \<Rightarrow> erro + Session" where
  "sql_INSERT r s =
     (case colunas (objetos s r) of
        None \<Rightarrow> Inl IntegrityError
      | Some c \<Rightarrow>
          (case objetos s r ''id'' of
             None \<Rightarrow>
               (case vincular_todos (parametros c) of
                  Some e \<Rightarrow> Inl e
                | None \<Rightarrow>
                    (let k = next_id (transacao s) in
                     if int64 k
                     then Inr (s\<lparr>transacao := transacao s @ [linha k c],
                                 objetos := (objetos s)(r := (objetos s r)(''id'' \<mapsto> VInt k)),
                                 identity := (identity s)(r \<mapsto> k)\<rparr>)
                     else Inl OperationalError))
           | Some (VInt k) \<Rightarrow>
               (case vincular_todos (VInt k # parametros c) of
                  Some e \<Rightarrow> Inl e
                | None \<Rightarrow>
                    (if k \<in> set (map chave (transacao s)) then Inl IntegrityError
                     else Inr (s\<lparr>transacao := transacao s @ [linha k c],
                                 identity := (identity s)(r \<mapsto> k)\<rparr>)))
           | Some _ \<Rightarrow> Inl IntegrityError))"

definition sql_UPDATE :: "ref \<Rightarrow> Session \<Rightarrow> erro + Session" where
  "sql_UPDATE r s =
     (case identity s r of
        None \<Rightarrow> Inl InvalidRequestError
      | Some k \<Rightarrow>
          (case colunas (objetos s r) of
             None \<Rightarrow> Inl IntegrityError
           | Some c \<Rightarrow>
               (case objetos s r ''id'' of
                  Some (VInt k') \<Rightarrow>
                    (case vincular_todos (VInt k' # parametros c @ [VInt k]) of
                       Some e \<Rightarrow> Inl e
                     | None \<Rightarrow>
                         (if k' \<noteq> k \<and> k' \<in> set (map chave (transacao s))
                          then Inl IntegrityError
                          else Inr (s\<lparr>transacao :=
                                        map (\<lambda>row. if chave row = k then linha k' c else row)
                                          (transacao s),
                                      identity := (identity s)(r \<mapsto> k')\<rparr>)))
                | _ \<Rightarrow> Inl IntegrityError)))"

definition sql_DELETE :: "ref \<Rightarrow> Session \<Rightarrow> erro + Session" where
  "sql_DELETE r s =
     (case identity s r of
        None \<Rightarrow> Inl InvalidRequestError
      | Some k \<Rightarrow>
          (case vincular (VInt k) of
             Some e \<Rightarrow> Inl e
           | None \<Rightarrow>
               Inr (s\<lparr>transacao := filter (\<lambda>row. chave row \<noteq> k) (transacao s),
                      identity := (identity s)(r := None)\<rparr>)))"

fun para_cada :: "(ref \<Rightarrow> Session \<Rightarrow> erro + Session) \<Rightarrow> ref list \<Rightarrow> Session \<Rightarrow> erro + Session"
  where
  "para_cada f [] s = Inr s"
| "para_cada f (r # rs) s = (case f r s of Inl e \<Rightarrow> Inl e | Inr s' \<Rightarrow> para_cada f rs s')"

text \<open>The flush: the pending inserts, then the updates, then the deletes.\<close>

definition flush :: "Session \<Rightarrow> erro + Session" where
  "flush s =
     (case para_cada sql_INSERT (new s) s of
        Inl e \<Rightarrow> Inl e
      | Inr s1 \<Rightarrow>
          (case para_cada sql_UPDATE (dirty s1) s1 of
             Inl e \<Rightarrow> Inl e
           | Inr s2 \<Rightarrow>
               (case para_cada sql_DELETE (deleted s2) s2 of
                  Inl e \<Rightarrow> Inl e
                | Inr s3 \<Rightarrow> Inr (s3\<lparr>new := [], dirty := [], deleted := []\<rparr>))))"

text \<open>
  \<open>db.commit()\<close>: the flush, then the transaction's rows become the engine's. A
  flush that raises leaves the engine's rows as they were.
\<close>

definition db_commit :: "unit acao" where
  "db_commit =
     (\<lambda>s. case flush s of
             Inl e \<Rightarrow> (Inl e, s)
           | Inr s' \<Rightarrow> (Inr (), s'\<lparr>bind := (bind s')\<lparr>tabela := transacao s'\<rparr>\<rparr>))"

text \<open>
  \<open>db.refresh(obj)\<close>: the attributes of a persistent instance are read again from its
  row.
\<close>

definition db_refresh :: "ref \<Rightarrow> unit acao" where
  "db_refresh r =
     (\<lambda>s. case identity s r of
             None \<Rightarrow> (Inl InvalidRequestError, s)
           | Some k \<Rightarrow>
               (case vincular (VInt k) of
                  Some e \<Rightarrow> (Inl e, s)
                | None \<Rightarrow>
                    (case find (\<lambda>row. chave row = k) (transacao s) of
                       None \<Rightarrow> (Inl InvalidRequestError, s)
                     | Some row \<Rightarrow>
                         (Inr (),
                          s\<lparr>objetos := (objetos s)(r := carregar row (objetos s r))\<rparr>))))"

text \<open>
  A query is the list of its conditions. \<open>db.query(models.Produto)\<close> has none,
  \<open>.filter(c)\<close> adds one; the only condition of the program is
  \<open>models.Produto.id == k\<close>, whose parameter is \<open>k\<close>. A query reads the transaction's
  rows and does not flush (autoflush is off).
\<close>

datatype criterio = IdIgual int

type_synonym Query = "criterio list"

definition db_query :: Query where
  "db_query = []"

definition filter_q :: "Query \<Rightarrow> criterio \<Rightarrow> Query" where
  "filter_q q c = q @ [c]"

fun parametro :: "criterio \<Rightarrow> valor" where
  "parametro (IdIgual k) = VInt k"

fun satisfaz :: "Linha \<Rightarrow> criterio \<Rightarrow> bool" where
  "satisfaz row (IdIgual k) = (chave row = k)"

definition seleciona :: "Query \<Rightarrow> Linha \<Rightarrow> bool" where
  "seleciona q row = list_all (satisfaz row) q"

text \<open>A row read by a query becomes a persistent instance.\<close>

definition instancia :: "Linha \<Rightarrow> Session \<Rightarrow> ref \<times> Session" where
  "instancia row s =
     (topo s,
      s\<lparr>objetos := (objetos s)(topo s := carregar row Map.empty), topo := Suc (topo s),
        identity := (identity s)(topo s \<mapsto> chave row)\<rparr>)"

fun instancias :: "Linha list \<Rightarrow> Session \<Rightarrow> ref list \<times> Session" where
  "instancias [] s = ([], s)"
| "instancias (row # rows) s =
     (case instancia row s of (r, s') \<Rightarrow>
        (case instancias rows s' of (rs, s'') \<Rightarrow> (r # rs, s'')))"

text \<open>
  \<open>.first()\<close>: the first selected row, or \<open>None\<close>. \<open>.all()\<close>: every selected row.
  Both hand the parameters of the query to the store first.
\<close>

definition first :: "Query \<Rightarrow> ref option acao" where
  "first q =
     (\<lambda>s. case vincular_todos (map parametro q) of
             Some e \<Rightarrow> (Inl e, s)
           | None \<Rightarrow>
               (case find (seleciona q) (transacao s) of
                  None \<Rightarrow> (Inr None, s)
                | Some row \<Rightarrow> (case instancia row s of (r, s') \<Rightarrow> (Inr (Some r), s'))))"

definition all_q :: "Query \<Rightarrow> ref list acao" where
  "all_q q =
     (\<lambda>s. case vincular_todos (map parametro q) of
             Some e \<Rightarrow> (Inl e, s)
           | None \<Rightarrow>
               (case instancias (filter (seleciona q) (transacao s)) s of
                  (rs, s') \<Rightarrow> (Inr rs, s')))"

subsection \<open>Responses\<close>

text \<open>
  \<open>response_model=schemas.Produto\<close> (with \<open>orm_mode\<close>): the returned instance is read
  attribute by attribute into the schema; an instance that lacks a field, or holds a
  value of another type in it, does not validate. Any float validates.
\<close>

definition from_orm :: "atributos \<Rightarrow> erro + Produto" where
  "from_orm a =
     (case a ''id'' of
        Some (VInt k) \<Rightarrow>
          (case a ''nome'' of
             Some (VStr n) \<Rightarrow>
               (case a ''preco'' of
                  Some (VFloat x) \<Rightarrow>
                    (case a ''estoque'' of
                       Some (VInt q) \<Rightarrow> Inr \<lparr>nome = n, preco = x, estoque = q, id' = k\<rparr>
                     | _ \<Rightarrow> Inl ValidationError)
                | _ \<Rightarrow> Inl ValidationError)
           | _ \<Rightarrow> Inl ValidationError)
      | _ \<Rightarrow> Inl ValidationError)"

fun from_orm_list :: "atributos list \<Rightarrow> erro + Produto list" where
  "from_orm_list [] = Inr []"
| "from_orm_list (a # as) =
     (case from_orm a of
        Inl e \<Rightarrow> Inl e
      | Inr p \<Rightarrow> (case from_orm_list as of Inl e \<Rightarrow> Inl e | Inr ps \<Rightarrow> Inr (p # ps)))"

text \<open>
  The JSON body of a response: the encoder refuses a float that is not finite, and the
  encoded text must then go to UTF-8, which has no surrogate.
\<close>

definition render :: "Produto list \<Rightarrow> erro option" where
  "render ps =
     (if list_all (\<lambda>p. finito (preco p)) ps
      then (if list_all (\<lambda>p. list_all escalar (nome p)) ps then None
            else Some UnicodeEncodeError)
      else Some ValueError)"

definition response_Produto :: "ref \<Rightarrow> Session \<Rightarrow> erro + Produto" where
  "response_Produto r s =
     (case from_orm (objetos s r) of
        Inl e \<Rightarrow> Inl e
      | Inr p \<Rightarrow> (case render [p] of Some e \<Rightarrow> Inl e | None \<Rightarrow> Inr p))"

text \<open>\<open>response_model=list[schemas.Produto]\<close>: every instance of the list, in order.\<close>

definition response_list :: "ref list \<Rightarrow> Session \<Rightarrow> erro + Produto list" where
  "response_list rs s =
     (case from_orm_list (map (objetos s) rs) of
        Inl e \<Rightarrow> Inl e
      | Inr ps \<Rightarrow> (case render ps of Some e \<Rightarrow> Inl e | None \<Rightarrow> Inr ps))"

text \<open>A route without a response model sends what the handler returned.\<close>

definition response_plain :: "'a \<Rightarrow> Session \<Rightarrow> erro + 'a" where
  "response_plain x s = Inr x"

subsection \<open>main.py: the handlers\<close>

text \<open>
  Each handler is translated statement by statement; the session \<open>db\<close> is the state
  that \<open>seq\<close> threads through.
\<close>

definition criar_produto :: "ProdutoCreate \<Rightarrow> ref acao" where
  "criar_produto produto =
     seq (models_Produto (dict produto)) (\<lambda>novo.
     seq (db_add novo) (\<lambda>_.
     seq db_commit (\<lambda>_.
     seq (db_refresh novo) (\<lambda>_.
     ret novo))))"

definition listar_produtos :: "ref list acao" where
  "listar_produtos = all_q db_query"

definition obter_produto :: "int \<Rightarrow> ref acao" where
  "obter_produto produto_id =
     seq (first (filter_q db_query (IdIgual produto_id))) (\<lambda>produto.
     case produto of
       None \<Rightarrow> raise (HTTPException 404 nao_encontrado)
     | Some p \<Rightarrow> ret p)"

text \<open>The loop of \<open>atualizar_produto\<close> over \<open>dados.dict().items()\<close>.\<close>

fun setattr_items :: "ref \<Rightarrow> (string \<times> valor) list \<Rightarrow> Session \<Rightarrow> Session" where
  "setattr_items p [] s = s"
| "setattr_items p ((campo, v) # items) s = setattr_items p items (setattr p campo v s)"

definition atualizar_produto :: "int \<Rightarrow> ProdutoCreate \<Rightarrow> ref acao" where
  "atualizar_produto produto_id dados =
     seq (first (filter_q db_query (IdIgual produto_id))) (\<lambda>produto.
     case produto of
       None \<Rightarrow> raise (HTTPException 404 nao_encontrado)
     | Some p \<Rightarrow>
         seq (\<lambda>s. (Inr (), setattr_items p (dict dados) s)) (\<lambda>_.
         seq db_commit (\<lambda>_.
         seq (db_refresh p) (\<lambda>_.
         ret p))))"

definition deletado :: "(string \<times> string) list" where
  "deletado = [(''mensagem'', ''Produto deletado com sucesso'')]"

definition deletar_produto :: "int \<Rightarrow> (string \<times> string) list acao" where
  "deletar_produto produto_id =
     seq (first (filter_q db_query (IdIgual produto_id))) (\<lambda>produto.
     case produto of
       None \<Rightarrow> raise (HTTPException 404 nao_encontrado)
     | Some p \<Rightarrow>
         seq (db_delete p) (\<lambda>_.
         seq db_commit (\<lambda>_.
         ret deletado)))"

subsection \<open>main.py: the session of a request, and the routes\<close>

text \<open>
  \<open>get_db\<close> is a generator: it makes the session, yields it, and closes it in a
  \<open>finally\<close>. The framework runs \<open>corpo\<close> (the handler, then the validation and the
  encoding of the response) at the \<open>yield\<close>; an exception of \<open>corpo\<close> is thrown into
  the generator there, so the \<open>finally\<close> runs on both ways out.
\<close>

definition get_db :: "Engine \<Rightarrow> 'a acao \<Rightarrow> (erro + 'a) \<times> Session" where
  "get_db engine corpo =
     (let db = SessionLocal engine in
      case corpo db of
        (Inl e, db') \<Rightarrow> (Inl e, db_close db')
      | (Inr x, db') \<Rightarrow> (Inr x, db_close db'))"

text \<open>
  A route: the handler under \<open>Depends(get_db)\<close>, with its response model. The result is
  the response (or the exception that reached the framework) and the engine
  afterwards.
\<close>

definition rota ::
  "('a \<Rightarrow> Session \<Rightarrow> erro + 'b) \<Rightarrow> 'a acao \<Rightarrow> Engine \<Rightarrow> (erro + 'b) \<times> Engine"
  where
  "rota response_model handler engine =
     (case get_db engine (seq handler (\<lambda>x s. (response_model x s, s))) of
        (r, db) \<Rightarrow> (r, bind db))"

definition POST_produtos :: "ProdutoCreate \<Rightarrow> Engine \<Rightarrow> (erro + Produto) \<times> Engine"
  where
  "POST_produtos produto = rota response_Produto (criar_produto produto)"

definition GET_produtos :: "Engine \<Rightarrow> (erro + Produto list) \<times> Engine" where
  "GET_produtos = rota response_list listar_produtos"

definition GET_produto :: "int \<Rightarrow> Engine \<Rightarrow> (erro + Produto) \<times> Engine" where
  "GET_produto produto_id = rota response_Produto (obter_produto produto_id)"

definition PUT_produto ::
  "int \<Rightarrow> ProdutoCreate \<Rightarrow> Engine \<Rightarrow> (erro + Produto) \<times> Engine" where
  "PUT_produto produto_id dados = rota response_Produto (atualizar_produto produto_id dados)"

definition DELETE_produto ::
  "int \<Rightarrow> Engine \<Rightarrow> (erro + (string \<times> string) list) \<times> Engine" where
  "DELETE_produto produto_id = rota response_plain (deletar_produto produto_id)"

subsection \<open>main.py: the application\<close>

text \<open>
  The five decorators of main.py: the method and the path of a request choose the route.
  \<open>servir\<close> serves the requests of a list one after the other, each on the engine the
  one before it left.
\<close>

datatype requisicao =
    ReqPOST ProdutoCreate
  | ReqGET_all
  | ReqGET int
  | ReqPUT int ProdutoCreate
  | ReqDELETE int

datatype conteudo = Um Produto | Varios "Produto list" | Mensagem "(string \<times> string) list"

definition app :: "requisicao \<Rightarrow> Engine \<Rightarrow> (erro + conteudo) \<times> Engine" where
  "app rq engine =
     (case rq of
        ReqPOST produto \<Rightarrow> (case POST_produtos produto engine of (r, e) \<Rightarrow> (map_sum (\<lambda>x. x) Um r, e))
      | ReqGET_all \<Rightarrow> (case GET_produtos engine of (r, e) \<Rightarrow> (map_sum (\<lambda>x. x) Varios r, e))
      | ReqGET k \<Rightarrow> (case GET_produto k engine of (r, e) \<Rightarrow> (map_sum (\<lambda>x. x) Um r, e))
      | ReqPUT k dados \<Rightarrow> (case PUT_produto k dados engine of (r, e) \<Rightarrow> (map_sum (\<lambda>x. x) Um r, e))
      | ReqDELETE k \<Rightarrow> (case DELETE_produto k engine of (r, e) \<Rightarrow> (map_sum (\<lambda>x. x) Mensagem r, e)))"


subsection \<open>What the store holds and what a response can carry\<close>

text \<open>
  A text that the driver hands to the store, and a payload whose three values the store
  takes and gives back as they are: such a text for name, a finite price, a stock within
  64 bits.
\<close>

definition texto :: "str \<Rightarrow> bool" where
  "texto s = (list_all escalar s \<and> sum_list (map utf8 s) \<le> 1000000000)"

definition armazenavel :: "ProdutoCreate \<Rightarrow> bool" where
  "armazenavel p = (texto (nome p) \<and> finito (preco p) \<and> int64 (estoque p))"

text \<open>
  What the response model and the encoder make of an instance that was just read from a
  row, and of the instances read from a list of rows.
\<close>

definition produto_de :: "Linha \<Rightarrow> pyfloat \<Rightarrow> Produto" where
  "produto_de row x =
     \<lparr>nome = col_nome row, preco = x, estoque = sint (col_estoque row), id' = chave row\<rparr>"

definition validar :: "Linha \<Rightarrow> erro + Produto" where
  "validar row =
     (case col_preco row of None \<Rightarrow> Inl ValidationError | Some x \<Rightarrow> Inr (produto_de row x))"

fun validar_todas :: "Linha list \<Rightarrow> erro + Produto list" where
  "validar_todas [] = Inr []"
| "validar_todas (row # rows) =
     (case validar row of
        Inl e \<Rightarrow> Inl e
      | Inr p \<Rightarrow> (case validar_todas rows of Inl e \<Rightarrow> Inl e | Inr ps \<Rightarrow> Inr (p # ps)))"

definition resposta :: "Linha \<Rightarrow> erro + Produto" where
  "resposta row =
     (case validar row of
        Inl e \<Rightarrow> Inl e
      | Inr p \<Rightarrow> (case render [p] of Some e \<Rightarrow> Inl e | None \<Rightarrow> Inr p))"

definition respostas :: "Linha list \<Rightarrow> erro + Produto list" where
  "respostas rows =
     (case validar_todas rows of
        Inl e \<Rightarrow> Inl e
      | Inr ps \<Rightarrow> (case render ps of Some e \<Rightarrow> Inl e | None \<Rightarrow> Inr ps))"


section \<open>What each route computes\<close>

text \<open>
  Each route, run on an engine from a fresh session to its close, comes to a function of
  the table: the lemmas \<open>POST_produtos_eq\<close>, \<open>GET_produtos_eq\<close>,
  \<open>GET_produto_eq\<close>, \<open>PUT_produto_eq\<close> and \<open>DELETE_produto_eq\<close> give it, for
  every input.
\<close>

lemmas acao_defs = seq_def ret_def raise_def

lemmas rota_defs = rota_def get_db_def SessionLocal_def db_close_def Let_def

lemmas query_defs = filter_q_def db_query_def seleciona_def

lemma int64_chave: "int64 (chave row)"
  using sint_ge [of "col_id row"] sint_lt [of "col_id row"]
  by (simp add: int64_def chave_def)

lemma sint_word_of_int64: "int64 k \<Longrightarrow> sint (word_of_int k :: 64 word) = k"
  by (simp add: int64_def sint_sbintrunc' signed_take_bit_int_eq_self)

lemma next_id_fresh: "next_id rows \<notin> set (map chave rows)"
proof (cases "rows = []")
  case True
  then show ?thesis by simp
next
  case False
  have "\<And>k. k \<in> set (map chave rows) \<Longrightarrow> k \<le> Max (set (map chave rows))"
    by (rule Max_ge) auto
  then have "\<And>k. k \<in> set (map chave rows) \<Longrightarrow> k < next_id rows"
    using False by (fastforce simp: next_id_def)
  then show ?thesis by blast
qed

lemma find_fresh:
  "k \<notin> set (map chave rows) \<Longrightarrow>
   find (\<lambda>row. chave row = k) (rows @ [r]) = (if chave r = k then Some r else None)"
  by (induction rows) auto

lemma find_chave: "find (\<lambda>row. chave row = k) t = Some row \<Longrightarrow> chave row = k"
  by (induction t) (auto split: if_splits)

lemma find_None_chave: "find (\<lambda>row. chave row = k) t = None \<longleftrightarrow> k \<notin> set (map chave t)"
  by (induction t) auto

lemma find_Some_iff:
  "(\<exists>row. find (\<lambda>row. chave row = k) t = Some row) \<longleftrightarrow> k \<in> set (map chave t)"
  using find_None_chave [of k t] by (cases "find (\<lambda>row. chave row = k) t") auto

lemma find_map_upd:
  "find (\<lambda>row. chave row = k) t = Some row \<Longrightarrow> chave r = k \<Longrightarrow>
   find (\<lambda>row. chave row = k) (map (\<lambda>row. if chave row = k then r else row) t) = Some r"
  by (induction t) (auto split: if_splits)

lemma from_orm_carregar: "from_orm (carregar row a) = validar row"
  by (cases "col_preco row")
     (simp_all add: from_orm_def carregar_def validar_def produto_de_def)

lemma response_carregar:
  "objetos s r = carregar row a \<Longrightarrow> response_Produto r s = resposta row"
  by (simp add: response_Produto_def resposta_def from_orm_carregar)

lemma seleciona_id: "seleciona (filter_q db_query (IdIgual k)) = (\<lambda>row. chave row = k)"
  by (simp add: fun_eq_iff query_defs)

lemma seleciona_all: "seleciona db_query = (\<lambda>row. True)"
  by (simp add: fun_eq_iff query_defs)

lemma first_eq:
  "first (filter_q db_query (IdIgual k)) s =
     (if int64 k
      then (case find (\<lambda>row. chave row = k) (transacao s) of
              None \<Rightarrow> (Inr None, s)
            | Some row \<Rightarrow>
                (Inr (Some (topo s)),
                 s\<lparr>objetos := (objetos s)(topo s := carregar row Map.empty),
                   topo := Suc (topo s), identity := (identity s)(topo s \<mapsto> chave row)\<rparr>))
      else (Inl OverflowError, s))"
  by (simp add: first_def instancia_def seleciona_id split: option.splits)
     (simp add: query_defs)

lemma GET_produto_eq:
  "GET_produto k e =
     (if int64 k
      then (case find (\<lambda>row. chave row = k) (tabela e) of
              None \<Rightarrow> Inl (HTTPException 404 nao_encontrado)
            | Some row \<Rightarrow> resposta row)
      else Inl OverflowError,
      e\<lparr>feitas := Suc (feitas e)\<rparr>)"
  by (simp add: GET_produto_def obter_produto_def rota_defs acao_defs first_eq
      response_carregar split: option.splits sum.splits)

lemma DELETE_produto_eq:
  "DELETE_produto k e =
     (if int64 k
      then (case find (\<lambda>row. chave row = k) (tabela e) of
              None \<Rightarrow> (Inl (HTTPException 404 nao_encontrado), e\<lparr>feitas := Suc (feitas e)\<rparr>)
            | Some row \<Rightarrow>
                (Inr deletado,
                 e\<lparr>tabela := filter (\<lambda>row. chave row \<noteq> k) (tabela e),
                   feitas := Suc (feitas e)\<rparr>))
      else (Inl OverflowError, e\<lparr>feitas := Suc (feitas e)\<rparr>))"
  by (auto simp add: DELETE_produto_def deletar_produto_def rota_defs acao_defs first_eq
      response_plain_def db_delete_def db_commit_def flush_def sql_DELETE_def
      dest: find_chave split: option.splits)

lemma chave_linha: "int64 k \<Longrightarrow> chave (linha k c) = k"
  by (cases c) (simp add: linha_def chave_def sint_word_of_int64)

lemma colunas_dict:
  "colunas (map_of (dict p)) = Some (nome p, Some (preco p), estoque p)"
  by (simp add: colunas_def dict_def)

lemma parametros_simps:
  "parametros (n, Some x, q) = [VStr n, VFloat x, VInt q]"
  by (simp add: parametros_def)

lemmas criar_defs = POST_produtos_def criar_produto_def rota_defs acao_defs models_Produto_def
  db_add_def db_commit_def flush_def sql_INSERT_def colunas_def dict_def parametros_def

lemma POST_produtos_eq:
  "POST_produtos p e =
     (case vincular_todos [VStr (nome p), VFloat (preco p), VInt (estoque p)] of
        Some err \<Rightarrow> (Inl err, e\<lparr>feitas := Suc (feitas e)\<rparr>)
      | None \<Rightarrow>
          (if int64 (next_id (tabela e))
           then (resposta (linha (next_id (tabela e)) (nome p, Some (preco p), estoque p)),
                 e\<lparr>tabela := tabela e @
                              [linha (next_id (tabela e)) (nome p, Some (preco p), estoque p)],
                   feitas := Suc (feitas e)\<rparr>)
           else (Inl OperationalError, e\<lparr>feitas := Suc (feitas e)\<rparr>)))"
proof (cases "vincular_todos [VStr (nome p), VFloat (preco p), VInt (estoque p)]")
  case (Some err)
  then show ?thesis
    by (simp add: criar_defs del: vincular.simps vincular_todos.simps)
next
  case None
  show ?thesis
  proof (cases "int64 (next_id (tabela e))")
    case False
    then show ?thesis
      using None
      by (simp add: criar_defs del: vincular.simps vincular_todos.simps)
  next
    case True
    let ?k = "next_id (tabela e)"
    let ?row = "linha ?k (nome p, Some (preco p), estoque p)"
    have k: "chave ?row = ?k"
      using True by (rule chave_linha)
    have f: "find (\<lambda>row. chave row = ?k) (tabela e @ [?row]) = Some ?row"
      using next_id_fresh [of "tabela e"] k by (simp add: find_fresh)
    have r: "response_Produto 0 s = resposta ?row"
      if "objetos s 0 = carregar ?row a" for s a
      using that by (rule response_carregar)
    have v: "vincular (VInt ?k) = None"
      using True by simp
    show ?thesis
      using None True f
      by (simp add: criar_defs db_refresh_def r v
          del: vincular.simps vincular_todos.simps split: sum.splits)
  qed
qed

lemma vincular_chaves:
  "int64 k \<Longrightarrow> vincular_todos [VInt k, a, b, c, VInt k] = vincular_todos [a, b, c]"
  by (simp split: option.splits)

lemmas atualizar_defs = PUT_produto_def atualizar_produto_def rota_defs acao_defs first_eq
  setattr_def dict_def db_commit_def flush_def sql_UPDATE_def colunas_def carregar_def
  parametros_def

lemma PUT_produto_eq:
  "PUT_produto k d e =
     (if int64 k
      then (case find (\<lambda>row. chave row = k) (tabela e) of
              None \<Rightarrow> (Inl (HTTPException 404 nao_encontrado), e\<lparr>feitas := Suc (feitas e)\<rparr>)
            | Some row \<Rightarrow>
                (case vincular_todos [VStr (nome d), VFloat (preco d), VInt (estoque d)] of
                   Some err \<Rightarrow> (Inl err, e\<lparr>feitas := Suc (feitas e)\<rparr>)
                 | None \<Rightarrow>
                     (resposta (linha k (nome d, Some (preco d), estoque d)),
                      e\<lparr>tabela := map (\<lambda>row. if chave row = k
                                             then linha k (nome d, Some (preco d), estoque d)
                                             else row) (tabela e),
                        feitas := Suc (feitas e)\<rparr>)))
      else (Inl OverflowError, e\<lparr>feitas := Suc (feitas e)\<rparr>))"
proof (cases "int64 k")
  case False
  then show ?thesis
    by (simp add: PUT_produto_def atualizar_produto_def rota_defs acao_defs first_eq)
next
  case True
  show ?thesis
  proof (cases "find (\<lambda>row. chave row = k) (tabela e)")
    case None
    then show ?thesis
      using True
      by (simp add: PUT_produto_def atualizar_produto_def rota_defs acao_defs first_eq)
  next
    case (Some row)
    have k: "chave row = k"
      using Some by (rule find_chave)
    let ?row = "linha k (nome d, Some (preco d), estoque d)"
    have k': "chave ?row = k"
      using True by (rule chave_linha)
    have f: "find (\<lambda>row. chave row = k) (map (\<lambda>row. if chave row = k then ?row else row) (tabela e))
             = Some ?row"
      using Some k' by (rule find_map_upd)
    have v: "vincular (VInt k) = None"
      using True by simp
    have r: "response_Produto 0 s = resposta ?row"
      if "objetos s 0 = carregar ?row a" for s a
      using that by (rule response_carregar)
    show ?thesis
    proof (cases "vincular_todos [VStr (nome d), VFloat (preco d), VInt (estoque d)]")
      case (Some err)
      then show ?thesis
        using True \<open>find (\<lambda>row. chave row = k) (tabela e) = Some row\<close> k
        by (simp add: atualizar_defs vincular_chaves
            del: vincular.simps vincular_todos.simps)
    next
      case None
      then show ?thesis
        using True \<open>find (\<lambda>row. chave row = k) (tabela e) = Some row\<close> k f
        by (simp add: atualizar_defs vincular_chaves db_refresh_def v
            del: vincular.simps vincular_todos.simps split: sum.splits cong: if_cong)
           (simp add: r carregar_def)
    qed
  qed
qed

lemma from_orm_list_carregar:
  "from_orm_list (map (\<lambda>row. carregar row Map.empty) rows) = validar_todas rows"
  by (induction rows) (simp_all add: from_orm_carregar split: sum.splits)

lemma instancias_spec:
  "instancias rows s = (rs, s') \<Longrightarrow>
     (\<forall>r < topo s. objetos s' r = objetos s r) \<and> topo s \<le> topo s' \<and>
     bind s' = bind s \<and> transacao s' = transacao s \<and> closed s' = closed s \<and>
     map (objetos s') rs = map (\<lambda>row. carregar row Map.empty) rows"
proof (induction rows arbitrary: s rs s')
  case Nil
  then show ?case by simp
next
  case (Cons row rows)
  obtain s1 where s1: "instancia row s = (topo s, s1)"
    by (simp add: instancia_def)
  obtain rs1 s2 where s2: "instancias rows s1 = (rs1, s2)"
    by (cases "instancias rows s1")
  from Cons.prems s1 s2 have rs: "rs = topo s # rs1" and s': "s' = s2"
    by simp_all
  have t1: "topo s1 = Suc (topo s)" and o1: "objetos s1 (topo s) = carregar row Map.empty"
    and k1: "\<forall>r < topo s. objetos s1 r = objetos s r"
    and b1: "bind s1 = bind s" "transacao s1 = transacao s" "closed s1 = closed s"
    using s1 by (auto simp: instancia_def)
  note ih = Cons.IH [OF s2]
  have "objetos s2 (topo s) = carregar row Map.empty"
    using ih t1 o1 by simp
  then have "map (objetos s') rs = map (\<lambda>row. carregar row Map.empty) (row # rows)"
    using ih by (simp add: rs s')
  moreover have "\<forall>r < topo s. objetos s' r = objetos s r"
    using ih k1 t1 by (simp add: s')
  ultimately show ?case
    using ih t1 b1 by (simp add: s')
qed

lemma GET_produtos_eq:
  "GET_produtos e = (respostas (tabela e), e\<lparr>feitas := Suc (feitas e)\<rparr>)"
proof -
  obtain rs s' where i: "instancias (tabela e) (SessionLocal e) = (rs, s')"
    by (cases "instancias (tabela e) (SessionLocal e)")
  note sp = instancias_spec [OF i]
  have r: "response_list rs s' = respostas (tabela e)"
    using sp by (simp add: response_list_def respostas_def from_orm_list_carregar)
  have b: "bind s' = e\<lparr>feitas := Suc (feitas e), abertas := Suc (abertas e)\<rparr>"
    and c: "\<not> closed s'"
    using sp by (simp_all add: SessionLocal_def)
  have t: "transacao (SessionLocal e) = tabela e"
    by (simp add: SessionLocal_def)
  show ?thesis
    using i r b c t
    by (simp add: GET_produtos_def listar_produtos_def all_q_def db_query_def seleciona_def
        rota_def get_db_def acao_defs db_close_def Let_def split: sum.splits)
qed

subsection \<open>Keys, payloads and responses\<close>

lemma chave_int64: "k \<in> set (map chave t) \<Longrightarrow> int64 k"
  using int64_chave by auto

lemma filter_absent: "k \<notin> set (map chave t) \<Longrightarrow> filter (\<lambda>row. chave row \<noteq> k) t = t"
  by (induction t) auto

lemma ids_filter: "k \<notin> set (map chave (filter (\<lambda>row. chave row \<noteq> k) t))"
  by (induction t) auto

lemma armazenavel_vincular:
  "armazenavel p \<Longrightarrow> vincular_todos [VStr (nome p), VFloat (preco p), VInt (estoque p)] = None"
  by (simp add: armazenavel_def texto_def)

lemma resposta_linha:
  "armazenavel p \<Longrightarrow> int64 k \<Longrightarrow>
   resposta (linha k (nome p, Some (preco p), estoque p)) =
     Inr \<lparr>nome = nome p, preco = preco p, estoque = estoque p, id' = k\<rparr>"
  by (cases "preco p")
     (simp_all add: armazenavel_def texto_def resposta_def validar_def linha_def guardar_def
       produto_de_def render_def finito_def chave_def sint_word_of_int64)

lemma resposta_id: "resposta row = Inr p \<Longrightarrow> id' p = chave row"
  by (auto simp: resposta_def validar_def produto_de_def split: option.splits if_splits)

lemma resposta_not_404: "resposta row \<noteq> Inl (HTTPException a b)"
  by (auto simp: resposta_def validar_def render_def split: option.splits)

lemma vincular_not_404: "vincular v \<noteq> Some (HTTPException a b)"
  by (cases v) auto

lemma vincular_todos_not_404: "vincular_todos vs \<noteq> Some (HTTPException a b)"
  by (induction vs) (auto simp: vincular_not_404 split: option.splits)

lemma map_upd_twice:
  "chave r0 = k \<Longrightarrow>
   map (\<lambda>row. if chave row = k then r else row)
     (map (\<lambda>row. if chave row = k then r0 else row) t)
   = map (\<lambda>row. if chave row = k then r else row) t"
  by (induction t) auto

lemma ids_map_upd:
  "chave r = k \<Longrightarrow> map chave (map (\<lambda>row. if chave row = k then r else row) t) = map chave t"
  by (induction t) auto




subsection \<open>Keys of the table under the routes\<close>

lemma chaves_PUT: "map chave (tabela (snd (PUT_produto k d e))) = map chave (tabela e)"
proof (cases "int64 k")
  case False
  then show ?thesis by (simp add: PUT_produto_eq)
next
  case True
  have "chave (linha k (nome d, Some (preco d), estoque d)) = k"
    using True by (rule chave_linha)
  then show ?thesis
    using True
    by (simp add: PUT_produto_eq ids_map_upd del: vincular_todos.simps
        split: option.splits)
qed

lemma id_PUT: "fst (PUT_produto k d e) = Inr p \<Longrightarrow> id' p = k"
proof (cases "int64 k")
  case False
  then show "fst (PUT_produto k d e) = Inr p \<Longrightarrow> ?thesis"
    by (simp add: PUT_produto_eq)
next
  case True
  have "chave (linha k (nome d, Some (preco d), estoque d)) = k"
    using True by (rule chave_linha)
  then show "fst (PUT_produto k d e) = Inr p \<Longrightarrow> ?thesis"
    using True resposta_id [of "linha k (nome d, Some (preco d), estoque d)" p]
    by (auto simp: PUT_produto_eq simp del: vincular_todos.simps split: option.splits)
qed

lemma tabela_DELETE:
  "tabela (snd (DELETE_produto k e)) = filter (\<lambda>row. chave row \<noteq> k) (tabela e)"
proof (cases "int64 k")
  case False
  then have "k \<notin> set (map chave (tabela e))"
    using chave_int64 by blast
  then have "filter (\<lambda>row. chave row \<noteq> k) (tabela e) = tabela e"
    by (rule filter_absent)
  then show ?thesis
    using False by (simp add: DELETE_produto_eq)
next
  case True
  show ?thesis
  proof (cases "find (\<lambda>row. chave row = k) (tabela e)")
    case None
    then have "k \<notin> set (map chave (tabela e))"
      by (rule find_None_chave [THEN iffD1])
    then have "filter (\<lambda>row. chave row \<noteq> k) (tabela e) = tabela e"
      by (rule filter_absent)
    then show ?thesis
      using True None by (simp add: DELETE_produto_eq)
  next
    case (Some row)
    then show ?thesis
      using True by (simp add: DELETE_produto_eq)
  qed
qed

lemma tabela_POST:
  "tabela (snd (POST_produtos p e)) = tabela e \<or>
   (\<exists>row. tabela (snd (POST_produtos p e)) = tabela e @ [row] \<and>
          chave row = next_id (tabela e) \<and> chave row \<notin> set (map chave (tabela e)))"
proof (cases "vincular_todos [VStr (nome p), VFloat (preco p), VInt (estoque p)] = None
              \<and> int64 (next_id (tabela e))")
  case False
  then show ?thesis
    by (auto simp: POST_produtos_eq simp del: vincular_todos.simps split: option.splits)
next
  case True
  then have "chave (linha (next_id (tabela e)) (nome p, Some (preco p), estoque p)) =
             next_id (tabela e)"
    by (intro chave_linha) simp
  then show ?thesis
    using True next_id_fresh [of "tabela e"]
    by (simp add: POST_produtos_eq del: vincular_todos.simps)
qed

lemma id_POST:
  "fst (POST_produtos p e) = Inr x \<Longrightarrow>
   id' x = next_id (tabela e) \<and>
   (\<exists>row. tabela (snd (POST_produtos p e)) = tabela e @ [row] \<and> chave row = id' x)"
proof (cases "vincular_todos [VStr (nome p), VFloat (preco p), VInt (estoque p)] = None
              \<and> int64 (next_id (tabela e))")
  case False
  then show "fst (POST_produtos p e) = Inr x \<Longrightarrow> ?thesis"
    by (auto simp: POST_produtos_eq simp del: vincular_todos.simps split: option.splits)
next
  case True
  let ?row = "linha (next_id (tabela e)) (nome p, Some (preco p), estoque p)"
  have k: "chave ?row = next_id (tabela e)"
    using True by (intro chave_linha) simp
  assume "fst (POST_produtos p e) = Inr x"
  then have "resposta ?row = Inr x"
    using True by (simp add: POST_produtos_eq del: vincular_todos.simps)
  then have "id' x = chave ?row"
    by (rule resposta_id)
  then show ?thesis
    using True k by (simp add: POST_produtos_eq del: vincular_todos.simps)
qed

subsection \<open>The sessions of a request\<close>

lemma contadores_app:
  "feitas (snd (app rq e)) = Suc (feitas e) \<and> abertas (snd (app rq e)) = abertas e"
proof (cases rq)
  case (ReqPOST p)
  then show ?thesis
    by (simp add: app_def POST_produtos_eq del: vincular_todos.simps split: option.splits)
next
  case ReqGET_all
  then show ?thesis
    by (simp add: app_def GET_produtos_eq)
next
  case (ReqGET k)
  then show ?thesis
    by (simp add: app_def GET_produto_eq)
next
  case (ReqPUT k d)
  then show ?thesis
    by (simp add: app_def PUT_produto_eq del: vincular_todos.simps split: option.splits)
next
  case (ReqDELETE k)
  then show ?thesis
    by (simp add: app_def DELETE_produto_eq split: option.splits)
qed

lemma get_db_eq:
  "get_db engine corpo =
     (fst (corpo (SessionLocal engine)), db_close (snd (corpo (SessionLocal engine))))"
  by (simp add: get_db_def Let_def split: prod.splits sum.splits)

subsection \<open>Runs of requests\<close>












section \<open>The claims\<close>







text \<open>
  C3. For an id within the signed 64 bits, Get by id, Update and Delete each answer with
  the HTTP 404 whose detail is "Produto n\<open>a-tilde\<close>o encontrado" exactly when no row
  of the table has the id, and Delete succeeds exactly when one has. An id outside the 64
  bits is the id of no row, and on it the three operations raise OverflowError, not the
  404.
\<close>

theorem C3_not_found_iff_no_row:
  "(int64 k \<longrightarrow>
      (fst (GET_produto k e) = Inl (HTTPException 404 nao_encontrado)) =
        (k \<notin> set (map chave (tabela e))) \<and>
      (fst (PUT_produto k d e) = Inl (HTTPException 404 nao_encontrado)) =
        (k \<notin> set (map chave (tabela e))) \<and>
      (fst (DELETE_produto k e) = Inl (HTTPException 404 nao_encontrado)) =
        (k \<notin> set (map chave (tabela e))) \<and>
      (\<exists>m. fst (DELETE_produto k e) = Inr m) = (k \<in> set (map chave (tabela e)))) \<and>
   (\<not> int64 k \<longrightarrow>
      k \<notin> set (map chave (tabela e)) \<and>
      fst (GET_produto k e) = Inl OverflowError \<and>
      fst (PUT_produto k d e) = Inl OverflowError \<and>
      fst (DELETE_produto k e) = Inl OverflowError) \<and>
   nao_encontrado = ''Produto n'' @ [CHR 0xE3] @ ''o encontrado''"
proof (cases "int64 k")
  case False
  then have "k \<notin> set (map chave (tabela e))"
    using chave_int64 by blast
  then show ?thesis
    using False
    by (simp add: GET_produto_eq PUT_produto_eq DELETE_produto_eq nao_encontrado_def)
next
  case True
  show ?thesis
  proof (cases "find (\<lambda>row. chave row = k) (tabela e)")
    case None
    then have "k \<notin> set (map chave (tabela e))"
      by (rule find_None_chave [THEN iffD1])
    then show ?thesis
      using True None
      by (simp add: GET_produto_eq PUT_produto_eq DELETE_produto_eq nao_encontrado_def)
  next
    case (Some row)
    then have "k \<in> set (map chave (tabela e))"
      using find_Some_iff by blast
    moreover have "fst (PUT_produto k d e) \<noteq> Inl (HTTPException 404 nao_encontrado)"
      using True Some resposta_not_404 vincular_todos_not_404
      by (auto simp: PUT_produto_eq simp del: vincular_todos.simps split: option.splits)
    ultimately show ?thesis
      using True Some resposta_not_404
      by (simp add: GET_produto_eq DELETE_produto_eq nao_encontrado_def)
  qed
qed

theorem C3_not_found_iff_no_row_witness:
  "int64 7 \<and> (7::int) \<notin> set (map chave []) \<and>
   fst (GET_produto 7 \<lparr>tabela = [], feitas = 0, abertas = 0\<rparr>) =
     Inl (HTTPException 404 nao_encontrado) \<and>
   fst (PUT_produto 7 \<lparr>nome = str_of ''Caneta'', preco = Finito 2.5, estoque = 100\<rparr>
          \<lparr>tabela = [], feitas = 0, abertas = 0\<rparr>) =
     Inl (HTTPException 404 nao_encontrado) \<and>
   fst (DELETE_produto 7 \<lparr>tabela = [], feitas = 0, abertas = 0\<rparr>) =
     Inl (HTTPException 404 nao_encontrado) \<and>
   \<not> int64 (2 ^ 63) \<and>
   fst (DELETE_produto (2 ^ 63) \<lparr>tabela = [], feitas = 0, abertas = 0\<rparr>) = Inl OverflowError"
proof -
  let ?e = "\<lparr>tabela = [], feitas = 0, abertas = 0\<rparr>"
  let ?d = "\<lparr>nome = str_of ''Caneta'', preco = Finito 2.5, estoque = 100\<rparr>"
  have a: "int64 7" and b: "\<not> int64 (2 ^ 63)"
    by (simp_all add: int64_def)
  have n: "(7::int) \<notin> set (map chave [])"
    by simp
  note t1 = C3_not_found_iff_no_row [of 7 ?e ?d, THEN conjunct1, rule_format, OF a]
  note t2 = C3_not_found_iff_no_row [of "2 ^ 63" ?e ?d,
      THEN conjunct2, THEN conjunct1, rule_format, OF b]
  have g: "fst (GET_produto 7 ?e) = Inl (HTTPException 404 nao_encontrado)"
    using t1 [THEN conjunct1] by simp
  have p: "fst (PUT_produto 7 ?d ?e) = Inl (HTTPException 404 nao_encontrado)"
    using t1 [THEN conjunct2, THEN conjunct1] by simp
  have d: "fst (DELETE_produto 7 ?e) = Inl (HTTPException 404 nao_encontrado)"
    using t1 [THEN conjunct2, THEN conjunct2, THEN conjunct1] by simp
  have o: "fst (DELETE_produto (2 ^ 63) ?e) = Inl OverflowError"
    using t2 by simp
  show ?thesis
    by (intro conjI a n g p d b o)
qed

text \<open>
  The id 2^63 matches no row of the empty table, and Get by id raises OverflowError on
  it.
\<close>

theorem C3_counterexample:
  "(2 ^ 63 :: int) \<notin> set (map chave (tabela \<lparr>tabela = [], feitas = 0, abertas = 0\<rparr>)) \<and>
   fst (GET_produto (2 ^ 63) \<lparr>tabela = [], feitas = 0, abertas = 0\<rparr>) = Inl OverflowError \<and>
   fst (GET_produto (2 ^ 63) \<lparr>tabela = [], feitas = 0, abertas = 0\<rparr>) \<noteq>
     Inl (HTTPException 404 nao_encontrado)"
  by (simp add: GET_produto_eq int64_def)

text \<open>
  C4. When the table has a row with the id, Delete answers with exactly the body
  mensagem: "Produto deletado com sucesso" and the table afterwards is the old one
  without the rows of that id; on it, Get by id and a second Delete of the same id both
  answer with the 404 and change no row.
\<close>

theorem C4_delete_removes:
  "k \<in> set (map chave (tabela e)) \<Longrightarrow>
   fst (DELETE_produto k e) = Inr [(''mensagem'', ''Produto deletado com sucesso'')] \<and>
   tabela (snd (DELETE_produto k e)) = filter (\<lambda>row. chave row \<noteq> k) (tabela e) \<and>
   fst (GET_produto k (snd (DELETE_produto k e))) = Inl (HTTPException 404 nao_encontrado) \<and>
   tabela (snd (GET_produto k (snd (DELETE_produto k e)))) = tabela (snd (DELETE_produto k e)) \<and>
   fst (DELETE_produto k (snd (DELETE_produto k e))) = Inl (HTTPException 404 nao_encontrado) \<and>
   tabela (snd (DELETE_produto k (snd (DELETE_produto k e)))) = tabela (snd (DELETE_produto k e))"
proof -
  assume k: "k \<in> set (map chave (tabela e))"
  then obtain row where f: "find (\<lambda>row. chave row = k) (tabela e) = Some row"
    using find_Some_iff by blast
  have i: "int64 k"
    using k by (rule chave_int64)
  have n: "find (\<lambda>row. chave row = k) (filter (\<lambda>row. chave row \<noteq> k) (tabela e)) = None"
    using ids_filter [of k "tabela e"] by (rule find_None_chave [THEN iffD2])
  show ?thesis
    using f i n by (simp add: DELETE_produto_eq GET_produto_eq deletado_def)
qed

theorem C4_delete_removes_witness:
  "(1::int) \<in> set (map chave (tabela
      \<lparr>tabela = [\<lparr>col_id = 1, col_nome = str_of ''Caneta'', col_preco = Some (Finito 2.5),
                   col_estoque = 100\<rparr>,
                  \<lparr>col_id = 2, col_nome = str_of ''Caneta Azul'', col_preco = Some (Finito 3),
                   col_estoque = 90\<rparr>], feitas = 0, abertas = 0\<rparr>)) \<and>
   fst (DELETE_produto 1
      \<lparr>tabela = [\<lparr>col_id = 1, col_nome = str_of ''Caneta'', col_preco = Some (Finito 2.5),
                   col_estoque = 100\<rparr>,
                  \<lparr>col_id = 2, col_nome = str_of ''Caneta Azul'', col_preco = Some (Finito 3),
                   col_estoque = 90\<rparr>], feitas = 0, abertas = 0\<rparr>) =
     Inr [(''mensagem'', ''Produto deletado com sucesso'')] \<and>
   tabela (snd (DELETE_produto 1
      \<lparr>tabela = [\<lparr>col_id = 1, col_nome = str_of ''Caneta'', col_preco = Some (Finito 2.5),
                   col_estoque = 100\<rparr>,
                  \<lparr>col_id = 2, col_nome = str_of ''Caneta Azul'', col_preco = Some (Finito 3),
                   col_estoque = 90\<rparr>], feitas = 0, abertas = 0\<rparr>)) =
     [\<lparr>col_id = 2, col_nome = str_of ''Caneta Azul'', col_preco = Some (Finito 3),
       col_estoque = 90\<rparr>] \<and>
   fst (GET_produto 1 (snd (DELETE_produto 1
      \<lparr>tabela = [\<lparr>col_id = 1, col_nome = str_of ''Caneta'', col_preco = Some (Finito 2.5),
                   col_estoque = 100\<rparr>,
                  \<lparr>col_id = 2, col_nome = str_of ''Caneta Azul'', col_preco = Some (Finito 3),
                   col_estoque = 90\<rparr>], feitas = 0, abertas = 0\<rparr>))) =
     Inl (HTTPException 404 nao_encontrado)"
proof -
  let ?e = "\<lparr>tabela = [\<lparr>col_id = 1, col_nome = str_of ''Caneta'', col_preco = Some (Finito 2.5),
                   col_estoque = 100\<rparr>,
                  \<lparr>col_id = 2, col_nome = str_of ''Caneta Azul'', col_preco = Some (Finito 3),
                   col_estoque = 90\<rparr>], feitas = 0, abertas = 0\<rparr>"
  have h: "(1::int) \<in> set (map chave (tabela ?e))"
    by (simp add: chave_def)
  note th = C4_delete_removes [OF h]
  have tab: "tabela (snd (DELETE_produto 1 ?e)) =
     [\<lparr>col_id = 2, col_nome = str_of ''Caneta Azul'', col_preco = Some (Finito 3),
       col_estoque = 90\<rparr>]"
    using th [THEN conjunct2, THEN conjunct1] by (simp add: chave_def)
  show ?thesis
    by (intro conjI h th [THEN conjunct1] tab th [THEN conjunct2, THEN conjunct2, THEN conjunct1])
qed




text \<open>
  C6. When no row of the table has the id, Update leaves the table exactly as it was: no
  row is made and none is changed. It answers with the 404 when the id is within the
  signed 64 bits, and raises OverflowError when it is not.
\<close>

theorem C6_update_missing_changes_nothing:
  "k \<notin> set (map chave (tabela e)) \<Longrightarrow>
   fst (PUT_produto k d e) =
     (if int64 k then Inl (HTTPException 404 nao_encontrado) else Inl OverflowError) \<and>
   tabela (snd (PUT_produto k d e)) = tabela e"
proof -
  assume "k \<notin> set (map chave (tabela e))"
  then have "find (\<lambda>row. chave row = k) (tabela e) = None"
    by (rule find_None_chave [THEN iffD2])
  then show ?thesis
    by (simp add: PUT_produto_eq)
qed

theorem C6_update_missing_changes_nothing_witness:
  "(2::int) \<notin> set (map chave
      [\<lparr>col_id = 1, col_nome = str_of ''Caneta'', col_preco = Some (Finito 2.5),
        col_estoque = 100\<rparr>]) \<and>
   fst (PUT_produto 2 \<lparr>nome = str_of ''Caneta Azul'', preco = Finito 3, estoque = 90\<rparr>
     \<lparr>tabela = [\<lparr>col_id = 1, col_nome = str_of ''Caneta'', col_preco = Some (Finito 2.5),
                  col_estoque = 100\<rparr>], feitas = 0, abertas = 0\<rparr>) =
     Inl (HTTPException 404 nao_encontrado) \<and>
   tabela (snd (PUT_produto 2 \<lparr>nome = str_of ''Caneta Azul'', preco = Finito 3, estoque = 90\<rparr>
     \<lparr>tabela = [\<lparr>col_id = 1, col_nome = str_of ''Caneta'', col_preco = Some (Finito 2.5),
                  col_estoque = 100\<rparr>], feitas = 0, abertas = 0\<rparr>)) =
     [\<lparr>col_id = 1, col_nome = str_of ''Caneta'', col_preco = Some (Finito 2.5),
       col_estoque = 100\<rparr>]"
proof -
  let ?t = "[\<lparr>col_id = 1, col_nome = str_of ''Caneta'', col_preco = Some (Finito 2.5),
              col_estoque = 100\<rparr>]"
  have h: "(2::int) \<notin> set (map chave (tabela \<lparr>tabela = ?t, feitas = 0, abertas = 0\<rparr>))"
    by (simp add: chave_def)
  have i: "int64 2"
    by (simp add: int64_def)
  note th = C6_update_missing_changes_nothing [OF h,
      of "\<lparr>nome = str_of ''Caneta Azul'', preco = Finito 3, estoque = 90\<rparr>"]
  show ?thesis
    using h i th by simp
qed

text \<open>
  Update of the id 2^63, which no row has, raises OverflowError and not the 404.
\<close>

theorem C6_counterexample:
  "(2 ^ 63 :: int) \<notin> set (map chave (tabela \<lparr>tabela = [], feitas = 0, abertas = 0\<rparr>)) \<and>
   fst (PUT_produto (2 ^ 63) \<lparr>nome = str_of ''Caneta'', preco = Finito 2.5, estoque = 100\<rparr>
          \<lparr>tabela = [], feitas = 0, abertas = 0\<rparr>) = Inl OverflowError \<and>
   fst (PUT_produto (2 ^ 63) \<lparr>nome = str_of ''Caneta'', preco = Finito 2.5, estoque = 100\<rparr>
          \<lparr>tabela = [], feitas = 0, abertas = 0\<rparr>) \<noteq> Inl (HTTPException 404 nao_encontrado)"
  by (simp add: PUT_produto_eq int64_def)

text \<open>
  C7. The id of a row is given once, by the store, when the row is created, and no
  request changes it. Update leaves the ids of the table as they were, row by row, and
  the entity it answers with has the id of the request; the payload has the three fields
  nome, preco, estoque and no id, and the loop over them leaves the id of the instance
  as it was. Create leaves the table as it was or appends one row under the store's next
  key, which no row had; when it answers with an entity, the entity has that key and the
  row of that key was appended. Delete only drops rows; the two reads change no row.
\<close>

theorem C7_id_never_changes:
  "map chave (tabela (snd (PUT_produto k d e))) = map chave (tabela e) \<and>
   (\<forall>x. fst (PUT_produto k d e) = Inr x \<longrightarrow> id' x = k) \<and>
   map fst (dict d) = [''nome'', ''preco'', ''estoque''] \<and>
   objetos (setattr_items r (dict d) s) r ''id'' = objetos s r ''id'' \<and>
   (tabela (snd (POST_produtos p e)) = tabela e \<or>
    (\<exists>row. tabela (snd (POST_produtos p e)) = tabela e @ [row] \<and>
           chave row = next_id (tabela e) \<and> chave row \<notin> set (map chave (tabela e)))) \<and>
   (\<forall>x. fst (POST_produtos p e) = Inr x \<longrightarrow>
      id' x = next_id (tabela e) \<and>
      (\<exists>row. tabela (snd (POST_produtos p e)) = tabela e @ [row] \<and> chave row = id' x)) \<and>
   tabela (snd (DELETE_produto k e)) = filter (\<lambda>row. chave row \<noteq> k) (tabela e) \<and>
   tabela (snd (GET_produto k e)) = tabela e \<and> tabela (snd (GET_produtos e)) = tabela e"
proof -
  have loop: "objetos (setattr_items r (dict d) s) r ''id'' = objetos s r ''id''"
    by (simp add: dict_def setattr_def)
  have keys: "map fst (dict d) = [''nome'', ''preco'', ''estoque'']"
    by (simp add: dict_def)
  have put: "\<forall>x. fst (PUT_produto k d e) = Inr x \<longrightarrow> id' x = k"
    using id_PUT by blast
  have post: "\<forall>x. fst (POST_produtos p e) = Inr x \<longrightarrow>
      id' x = next_id (tabela e) \<and>
      (\<exists>row. tabela (snd (POST_produtos p e)) = tabela e @ [row] \<and> chave row = id' x)"
    using id_POST by blast
  have reads: "tabela (snd (GET_produto k e)) = tabela e" "tabela (snd (GET_produtos e)) = tabela e"
    by (simp_all add: GET_produto_eq GET_produtos_eq)
  show ?thesis
    by (intro conjI chaves_PUT put keys loop tabela_POST post tabela_DELETE reads)
qed

theorem C7_id_never_changes_witness:
  "fst (PUT_produto 1 \<lparr>nome = str_of ''Lapis'', preco = Finito 1.5, estoque = - 3\<rparr>
      \<lparr>tabela = [\<lparr>col_id = 1, col_nome = str_of ''Caneta'', col_preco = Some (Finito 2.5),
                   col_estoque = 100\<rparr>,
                  \<lparr>col_id = 2, col_nome = str_of ''Caneta Azul'', col_preco = Some (Finito 3),
                   col_estoque = 90\<rparr>], feitas = 0, abertas = 0\<rparr>) =
     Inr \<lparr>nome = str_of ''Lapis'', preco = Finito 1.5, estoque = - 3, id' = 1\<rparr> \<and>
   id' \<lparr>nome = str_of ''Lapis'', preco = Finito 1.5, estoque = - 3, id' = 1\<rparr> = 1 \<and>
   fst (POST_produtos \<lparr>nome = str_of ''Lapis'', preco = Finito 1.5, estoque = - 3\<rparr>
      \<lparr>tabela = [\<lparr>col_id = 1, col_nome = str_of ''Caneta'', col_preco = Some (Finito 2.5),
                   col_estoque = 100\<rparr>,
                  \<lparr>col_id = 2, col_nome = str_of ''Caneta Azul'', col_preco = Some (Finito 3),
                   col_estoque = 90\<rparr>], feitas = 0, abertas = 0\<rparr>) =
     Inr \<lparr>nome = str_of ''Lapis'', preco = Finito 1.5, estoque = - 3, id' = 3\<rparr> \<and>
   map chave (tabela (snd (POST_produtos
      \<lparr>nome = str_of ''Lapis'', preco = Finito 1.5, estoque = - 3\<rparr>
      \<lparr>tabela = [\<lparr>col_id = 1, col_nome = str_of ''Caneta'', col_preco = Some (Finito 2.5),
                   col_estoque = 100\<rparr>,
                  \<lparr>col_id = 2, col_nome = str_of ''Caneta Azul'', col_preco = Some (Finito 3),
                   col_estoque = 90\<rparr>], feitas = 0, abertas = 0\<rparr>))) = [1, 2, 3] \<and>
   map chave (tabela (snd (PUT_produto 1
      \<lparr>nome = str_of ''Lapis'', preco = Finito 1.5, estoque = - 3\<rparr>
      \<lparr>tabela = [\<lparr>col_id = 1, col_nome = str_of ''Caneta'', col_preco = Some (Finito 2.5),
                   col_estoque = 100\<rparr>,
                  \<lparr>col_id = 2, col_nome = str_of ''Caneta Azul'', col_preco = Some (Finito 3),
                   col_estoque = 90\<rparr>], feitas = 0, abertas = 0\<rparr>))) = [1, 2]"
proof -
  let ?e = "\<lparr>tabela = [\<lparr>col_id = 1, col_nome = str_of ''Caneta'', col_preco = Some (Finito 2.5),
                   col_estoque = 100\<rparr>,
                  \<lparr>col_id = 2, col_nome = str_of ''Caneta Azul'', col_preco = Some (Finito 3),
                   col_estoque = 90\<rparr>], feitas = 0, abertas = 0\<rparr>"
  let ?d = "\<lparr>nome = str_of ''Lapis'', preco = Finito 1.5, estoque = - 3\<rparr>"
  have a: "armazenavel ?d"
    by (simp add: armazenavel_def texto_def str_of_def escalar_def utf8_def finito_def int64_def)
  have v: "vincular_todos [VStr (nome ?d), VFloat (preco ?d), VInt (estoque ?d)] = None"
    using a by (rule armazenavel_vincular)
  have n: "next_id (tabela ?e) = 3"
    by (simp add: next_id_def chave_def)
  have i: "int64 1" "int64 3"
    by (simp_all add: int64_def)
  have put: "fst (PUT_produto 1 ?d ?e) =
      Inr \<lparr>nome = str_of ''Lapis'', preco = Finito 1.5, estoque = - 3, id' = 1\<rparr>"
    using v i(1) resposta_linha [OF a i(1)]
    by (simp add: PUT_produto_eq chave_def del: vincular_todos.simps)
  have post: "fst (POST_produtos ?d ?e) =
      Inr \<lparr>nome = str_of ''Lapis'', preco = Finito 1.5, estoque = - 3, id' = 3\<rparr>"
    using v i(2) n resposta_linha [OF a i(2)]
    by (simp add: POST_produtos_eq del: vincular_todos.simps)
  note th = C7_id_never_changes [of 1 ?d ?e 0 "SessionLocal ?e" ?d]
  have ids: "map chave (tabela (snd (PUT_produto 1 ?d ?e))) = [1, 2]"
    using th [THEN conjunct1] by (simp add: chave_def)
  have idp: "id' \<lparr>nome = str_of ''Lapis'', preco = Finito 1.5, estoque = - 3, id' = 1\<rparr> = 1"
    using th [THEN conjunct2, THEN conjunct1, rule_format, OF put] .
  obtain row where r: "tabela (snd (POST_produtos ?d ?e)) = tabela ?e @ [row]"
      "chave row = id' \<lparr>nome = str_of ''Lapis'', preco = Finito 1.5, estoque = - 3, id' = 3\<rparr>"
    using th [THEN conjunct2, THEN conjunct2, THEN conjunct2, THEN conjunct2, THEN conjunct2,
        THEN conjunct1, rule_format, OF post]
    by blast
  have idn: "map chave (tabela (snd (POST_produtos ?d ?e))) = [1, 2, 3]"
    using r by (simp add: chave_def)
  show ?thesis
    by (intro conjI put idp post idn ids)
qed

text \<open>
  C8. On an empty store, creating the product Caneta (price 2.5, stock 100) answers with
  exactly that product under the id 1, and the table then holds that one row.
\<close>

theorem C8_first_product_gets_id_1:
  "fst (POST_produtos \<lparr>nome = str_of ''Caneta'', preco = Finito 2.5, estoque = 100\<rparr>
         (e\<lparr>tabela := []\<rparr>)) =
     Inr \<lparr>nome = str_of ''Caneta'', preco = Finito 2.5, estoque = 100, id' = 1\<rparr> \<and>
   tabela (snd (POST_produtos \<lparr>nome = str_of ''Caneta'', preco = Finito 2.5, estoque = 100\<rparr>
         (e\<lparr>tabela := []\<rparr>))) =
     [\<lparr>col_id = 1, col_nome = str_of ''Caneta'', col_preco = Some (Finito 2.5),
       col_estoque = 100\<rparr>]"
proof -
  let ?P = "\<lparr>nome = str_of ''Caneta'', preco = Finito 2.5, estoque = 100\<rparr>"
  have a: "armazenavel ?P"
    by (simp add: armazenavel_def texto_def str_of_def escalar_def utf8_def finito_def int64_def)
  have b: "int64 1"
    by (simp add: int64_def)
  have r: "resposta (linha 1 (nome ?P, Some (preco ?P), estoque ?P)) =
           Inr \<lparr>nome = nome ?P, preco = preco ?P, estoque = estoque ?P, id' = 1\<rparr>"
    using a b by (rule resposta_linha)
  have v: "vincular_todos [VStr (nome ?P), VFloat (preco ?P), VInt (estoque ?P)] = None"
    using a by (rule armazenavel_vincular)
  have l: "linha 1 (nome ?P, Some (preco ?P), estoque ?P) =
           \<lparr>col_id = 1, col_nome = str_of ''Caneta'', col_preco = Some (Finito 2.5),
            col_estoque = 100\<rparr>"
    by (simp add: linha_def guardar_def)
  show ?thesis
    using r v b l by (simp add: POST_produtos_eq next_id_def del: vincular_todos.simps)
qed

text \<open>
  C9. Every request, whatever its route and whether its handler returns or raises, makes
  exactly one session on the engine and leaves none open: the count of the sessions made
  goes up by one, and the count of the open ones is after the request what it was
  before. Every route runs its handler at the \<open>yield\<close> of \<open>get_db\<close>, and
  whatever runs there gets the one session that \<open>get_db\<close> made, open; whether it
  returns or raises, its outcome is passed on and the session it leaves is closed. So it
  is for a Get of an id that is not there: the 404 goes out and no session stays open.
\<close>

theorem C9_session_always_closed:
  "feitas (snd (app rq e)) = Suc (feitas e) \<and>
   abertas (snd (app rq e)) = abertas e \<and>
   rota response_model handler e =
     (fst (get_db e (seq handler (\<lambda>x s. (response_model x s, s)))),
      bind (snd (get_db e (seq handler (\<lambda>x s. (response_model x s, s)))))) \<and>
   fst (get_db e corpo) = fst (corpo (SessionLocal e)) \<and>
   snd (get_db e corpo) = db_close (snd (corpo (SessionLocal e))) \<and>
   closed (snd (get_db e corpo)) \<and>
   \<not> closed (SessionLocal e) \<and>
   feitas (bind (SessionLocal e)) = Suc (feitas e) \<and>
   abertas (bind (SessionLocal e)) = Suc (abertas e) \<and>
   fst (app (ReqGET 999999) (e\<lparr>tabela := []\<rparr>)) = Inl (HTTPException 404 nao_encontrado) \<and>
   abertas (snd (app (ReqGET 999999) (e\<lparr>tabela := []\<rparr>))) = abertas e"
proof -
  have c: "closed (db_close x)" for x
    by (simp add: db_close_def)
  have n: "fst (app (ReqGET 999999) (e\<lparr>tabela := []\<rparr>)) = Inl (HTTPException 404 nao_encontrado)"
    by (simp add: app_def GET_produto_eq int64_def)
  have s: "\<not> closed (SessionLocal e)" "feitas (bind (SessionLocal e)) = Suc (feitas e)"
    "abertas (bind (SessionLocal e)) = Suc (abertas e)"
    by (simp_all add: SessionLocal_def)
  have r: "rota response_model handler e =
     (fst (get_db e (seq handler (\<lambda>x s. (response_model x s, s)))),
      bind (snd (get_db e (seq handler (\<lambda>x s. (response_model x s, s))))))"
    by (simp add: rota_def split: prod.splits)
  have g: "fst (get_db e corpo) = fst (corpo (SessionLocal e))"
    "snd (get_db e corpo) = db_close (snd (corpo (SessionLocal e)))"
    "closed (snd (get_db e corpo))"
    using c by (simp_all add: get_db_eq)
  have m: "abertas (snd (app (ReqGET 999999) (e\<lparr>tabela := []\<rparr>))) = abertas e"
    using contadores_app [of "ReqGET 999999" "e\<lparr>tabela := []\<rparr>"] by simp
  show ?thesis
    by (intro conjI contadores_app [THEN conjunct1] contadores_app [THEN conjunct2] r g s n m)
qed

text \<open>
  C10. The two reading routes do not change the table: after List, and after Get by id
  with any id (found or not), the database holds exactly the rows it held before.
\<close>

theorem C10_reads_leave_the_table:
  "tabela (snd (GET_produtos e)) = tabela e \<and> tabela (snd (GET_produto k e)) = tabela e"
  by (simp add: GET_produtos_eq GET_produto_eq)

end
